theory Spec2Isabelle
  imports Main "HOL-Library.Product_Lexorder"
begin

section \<open>Qlip: the clipboard-history engine of \<^verbatim>\<open>qlip.py\<close>\<close>

text \<open>
  The theory embeds the part of \<^verbatim>\<open>qlip.py\<close> that keeps the clipboard history:
  the class \<^verbatim>\<open>ClipboardItem\<close> and the methods of \<^verbatim>\<open>ClipboardManager\<close> that read or
  change \<^verbatim>\<open>self.items\<close>, \<^verbatim>\<open>self.is_paused\<close> and the class variable
  \<^verbatim>\<open>ClipboardItem._counter\<close>. Widgets, icons, fonts and style sheets are left out.
  The rows of \<^verbatim>\<open>self.list_widget\<close> are not a component of the state: every method that
  changes \<^verbatim>\<open>self.items\<close> either rebuilds the widget from \<^verbatim>\<open>self.items\<close>, in order
  (\<^verbatim>\<open>reorder_items\<close>), or removes the same object from both (\<^verbatim>\<open>delete_item\<close>,
  \<^verbatim>\<open>delete_all_items\<close>), so row \<open>r\<close> of the widget always shows \<^verbatim>\<open>self.items[r]\<close>.
\<close>

subsection \<open>Values\<close>

text \<open>
  The four tags of \<^verbatim>\<open>ClipboardItem.data_type\<close> (line 20:
  \<^verbatim>\<open>'text'\<close>, \<^verbatim>\<open>'url'\<close>, \<^verbatim>\<open>'image'\<close>, \<^verbatim>\<open>'file'\<close>).
\<close>

datatype data_type = TEXT | URL | IMAGE | FILE

text \<open>
  A decoded image is its pixel content; \<^verbatim>\<open>QImage.__eq__\<close> compares that content.
  A \<^verbatim>\<open>QPixmap\<close> is built by \<^verbatim>\<open>QPixmap.fromImage\<close> and read back by \<^verbatim>\<open>toImage()\<close>.
\<close>

datatype qimage = QImage "nat list"

datatype qpixmap = fromImage (toImage: qimage)

text \<open>
  \<^verbatim>\<open>ClipboardItem.data\<close> is a Python \<^verbatim>\<open>str\<close> or a \<^verbatim>\<open>QPixmap\<close>. \<^verbatim>\<open>QPixmap\<close> defines no
  \<^verbatim>\<open>__eq__\<close>, so \<^verbatim>\<open>item.data == data\<close> with a \<^verbatim>\<open>str\<close> on the right is string equality
  when \<^verbatim>\<open>item.data\<close> is a \<^verbatim>\<open>str\<close> and \<^verbatim>\<open>False\<close> when it is a \<^verbatim>\<open>QPixmap\<close>: the equality
  of this datatype at \<open>Str\<close>.
\<close>

datatype pydata = Str string | QPixmap qpixmap

record clipboard_item =
  data_type :: data_type
  data :: pydata
  favorite :: bool
  index :: int

text \<open>
  What the code reads from a \<^verbatim>\<open>QUrl\<close> and from a \<^verbatim>\<open>QMimeData\<close>: the results of
  \<^verbatim>\<open>isLocalFile()\<close>, \<^verbatim>\<open>toLocalFile()\<close>, \<^verbatim>\<open>hasText()\<close>, \<^verbatim>\<open>text()\<close>, \<^verbatim>\<open>hasImage()\<close>,
  \<^verbatim>\<open>imageData()\<close>, \<^verbatim>\<open>hasUrls()\<close> and \<^verbatim>\<open>urls()\<close>. The field \<open>mime_text\<close> is
  \<^verbatim>\<open>text()\<close>, a name that Isabelle reserves.
\<close>

record qurl =
  isLocalFile :: bool
  toLocalFile :: string

record mime_data =
  hasText :: bool
  mime_text :: string
  hasImage :: bool
  imageData :: qimage
  hasUrls :: bool
  urls :: "qurl list"

text \<open>
  The state: \<^verbatim>\<open>self.items\<close>, the class variable \<^verbatim>\<open>ClipboardItem._counter\<close> and
  \<^verbatim>\<open>self.is_paused\<close>.
\<close>

record state =
  items :: "clipboard_item list"
  counter :: int
  is_paused :: bool

datatype error = OSError | JSONDecodeError | TypeError

subsection \<open>ClipboardItem\<close>

text \<open>\<^verbatim>\<open>ClipboardItem.__init__\<close> (lines 19-24): the new item takes the counter, which is then incremented.\<close>

definition ClipboardItem :: "data_type \<Rightarrow> pydata \<Rightarrow> bool \<Rightarrow> state \<Rightarrow> clipboard_item \<times> state" where
  "ClipboardItem dt d fav s =
     (\<lparr>data_type = dt, data = d, favorite = fav, index = counter s\<rparr>,
      s\<lparr>counter := counter s + 1\<rparr>)"

text \<open>The dictionary of \<^verbatim>\<open>to_dict\<close> and \<^verbatim>\<open>from_dict\<close>, with its four keys.\<close>

record item_dict =
  dict_data_type :: data_type
  dict_data :: pydata
  dict_favorite :: bool
  dict_index :: int

definition to_dict :: "clipboard_item \<Rightarrow> item_dict" where
  "to_dict item =
     \<lparr>dict_data_type = data_type item, dict_data = data item,
      dict_favorite = favorite item, dict_index = index item\<rparr>"

text \<open>\<^verbatim>\<open>from_dict\<close> (lines 35-38) calls the constructor, which counts, and then overwrites the index.\<close>

definition from_dict :: "item_dict \<Rightarrow> state \<Rightarrow> clipboard_item \<times> state" where
  "from_dict d s =
     (let (item, s') = ClipboardItem (dict_data_type d) (dict_data d) (dict_favorite d) s
      in (item\<lparr>index := dict_index d\<rparr>, s'))"

subsection \<open>Ordering and insertion\<close>

text \<open>
  \<^verbatim>\<open>reorder_items\<close> (line 344): \<^verbatim>\<open>self.items.sort(key=lambda x: (not x.favorite, x.index))\<close>.
  Python's sort is stable and compares the key tuples lexicographically, with
  \<^verbatim>\<open>False < True\<close>; \<open>sort_key\<close> is the stable insertion sort, on the lexicographic order
  of pairs.
\<close>

definition reorder_items :: "state \<Rightarrow> state" where
  "reorder_items s = s\<lparr>items := sort_key (\<lambda>x. (\<not> favorite x, index x)) (items s)\<rparr>"

definition add_item_to_list :: "clipboard_item \<Rightarrow> state \<Rightarrow> state" where
  "add_item_to_list clipboard_item s = reorder_items (s\<lparr>items := items s @ [clipboard_item]\<rparr>)"

text \<open>\<^verbatim>\<open>str.startswith\<close> with one prefix.\<close>

definition startswith :: "string \<Rightarrow> string \<Rightarrow> bool" where
  "startswith s p = (take (length p) s = p)"

subsection \<open>Ingestion\<close>

text \<open>The loop over \<^verbatim>\<open>mime_data.urls()\<close> (lines 248-255).\<close>

fun process_mime_data_urls :: "qurl list \<Rightarrow> state \<Rightarrow> state" where
  "process_mime_data_urls [] s = s"
| "process_mime_data_urls (url # more_urls) s =
     process_mime_data_urls more_urls
       (if isLocalFile url then
          (let file_path = toLocalFile url in
           if file_path \<noteq> [] then
             (if \<not> list_ex (\<lambda>item. data item = Str file_path) (items s) then
                (let (item, s') = ClipboardItem FILE (Str file_path) False s
                 in add_item_to_list item s')
              else s)
           else s)
        else s)"

text \<open>
  \<^verbatim>\<open>process_mime_data\<close> (lines 213-255). \<open>QUrl\<close> stands for the constructor
  \<^verbatim>\<open>QUrl(text)\<close> of Qt, a parameter of the model.
\<close>

definition process_mime_data :: "(string \<Rightarrow> qurl) \<Rightarrow> mime_data \<Rightarrow> state \<Rightarrow> state" where
  "process_mime_data QUrl mime_data s =
     (if hasText mime_data then
        (let text = mime_text mime_data in
         if text \<noteq> [] then
           (let (dt, d) =
                  (if startswith text ''http://'' \<or> startswith text ''https://'' then (URL, Str text)
                   else if startswith text ''file://'' then (FILE, Str (toLocalFile (QUrl text)))
                   else if startswith text ''/'' then (FILE, Str text)
                   else (TEXT, Str text))
            in if \<not> list_ex (\<lambda>item. data item = d) (items s) then
                 (let (item, s') = ClipboardItem dt d False s in add_item_to_list item s')
               else s)
         else s)
      else if hasImage mime_data then
        (let pixmap = fromImage (imageData mime_data) in
         if \<not> list_ex (\<lambda>item. case data item of
                                   QPixmap p \<Rightarrow> toImage p = toImage pixmap
                                 | Str _ \<Rightarrow> False) (items s) then
           (let (item, s') = ClipboardItem IMAGE (QPixmap pixmap) False s
            in add_item_to_list item s')
         else s)
      else if hasUrls mime_data then process_mime_data_urls (urls mime_data) s
      else s)"

definition on_clipboard_change :: "(string \<Rightarrow> qurl) \<Rightarrow> mime_data \<Rightarrow> state \<Rightarrow> state" where
  "on_clipboard_change QUrl mime_data s =
     (if is_paused s then s else process_mime_data QUrl mime_data s)"

definition dropEvent :: "(string \<Rightarrow> qurl) \<Rightarrow> mime_data \<Rightarrow> state \<Rightarrow> state" where
  "dropEvent QUrl mime_data s = process_mime_data QUrl mime_data s"

subsection \<open>User actions\<close>

definition toggle_pause :: "state \<Rightarrow> state" where
  "toggle_pause s = s\<lparr>is_paused := \<not> is_paused s\<rparr>"

text \<open>The answer to the confirmation dialog of \<^verbatim>\<open>delete_all_items\<close>.\<close>

datatype reply = Yes | No

definition delete_all_items :: "reply \<Rightarrow> state \<Rightarrow> state" where
  "delete_all_items reply s = (if reply = Yes then s\<lparr>items := [], counter := 0\<rparr> else s)"

text \<open>
  \<^verbatim>\<open>delete_item\<close> and \<^verbatim>\<open>toggle_favorite_item\<close> receive a row of the list widget, which
  holds the object \<^verbatim>\<open>self.items[row]\<close>. \<^verbatim>\<open>self.items.remove(clipboard_item)\<close> removes
  that very object (\<^verbatim>\<open>ClipboardItem\<close> has no \<^verbatim>\<open>__eq__\<close>, so \<^verbatim>\<open>remove\<close> finds it by
  identity). A context menu only opens on a valid row.
\<close>

definition delete_item :: "nat \<Rightarrow> state \<Rightarrow> state" where
  "delete_item row s = s\<lparr>items := take row (items s) @ drop (Suc row) (items s)\<rparr>"

definition toggle_favorite_item :: "nat \<Rightarrow> state \<Rightarrow> state" where
  "toggle_favorite_item row s =
     (if row < length (items s) then
        (let clipboard_item = items s ! row in
         reorder_items
           (s\<lparr>items := (items s)[row := clipboard_item\<lparr>favorite := \<not> favorite clipboard_item\<rparr>]\<rparr>))
      else s)"

text \<open>
  What \<^verbatim>\<open>on_item_clicked\<close> (lines 263-289) asks of the clipboard, the desktop and the
  message boxes, in order. \<open>exists\<close> is \<^verbatim>\<open>os.path.exists\<close>. \<^verbatim>\<open>setText\<close> of a \<^verbatim>\<open>QPixmap\<close>
  and \<^verbatim>\<open>setPixmap\<close> of a \<^verbatim>\<open>str\<close> raise \<^verbatim>\<open>TypeError\<close>.
\<close>

datatype effect =
    setText string
  | setPixmap qpixmap
  | openUrl string
  | openUrl_fromLocalFile string
  | warning string
  | information string

definition on_item_clicked :: "(string \<Rightarrow> bool) \<Rightarrow> clipboard_item \<Rightarrow> error + effect list" where
  "on_item_clicked exists clipboard_item =
     (if data_type clipboard_item = TEXT then
        (case data clipboard_item of
           QPixmap _ \<Rightarrow> Inl TypeError
         | Str d \<Rightarrow>
             Inr (setText d #
                  (if startswith d ''/'' then
                     (let path = d in
                      if exists path then [openUrl_fromLocalFile path]
                      else [warning (''File does not exist: '' @ path)])
                   else [information ''Text copied to clipboard.''])))
      else if data_type clipboard_item = URL then
        (case data clipboard_item of
           QPixmap _ \<Rightarrow> Inl TypeError
         | Str d \<Rightarrow> Inr [setText d, openUrl d])
      else if data_type clipboard_item = FILE then
        (case data clipboard_item of
           QPixmap _ \<Rightarrow> Inl TypeError
         | Str d \<Rightarrow>
             Inr (setText d #
                  (let path = d in
                   if exists path then [openUrl_fromLocalFile path]
                   else [warning (''File does not exist: '' @ path)])))
      else
        (case data clipboard_item of
           Str _ \<Rightarrow> Inl TypeError
         | QPixmap p \<Rightarrow> Inr [setPixmap p, information ''Image copied to clipboard.'']))"

subsection \<open>Persistence\<close>

text \<open>
  The list \<^verbatim>\<open>data\<close> that \<^verbatim>\<open>save_items_to_file\<close> builds (line 430), and the call of
  \<^verbatim>\<open>json.dump\<close> on it, which raises \<^verbatim>\<open>TypeError\<close> on a value that is not JSON, here
  a \<^verbatim>\<open>QPixmap\<close>. The file then holds the list of dictionaries; writing it is taken to succeed.
\<close>

definition save_items_to_file_data :: "state \<Rightarrow> item_dict list" where
  "save_items_to_file_data s = map to_dict (filter (\<lambda>item. data_type item \<noteq> IMAGE) (items s))"

definition json_dump :: "item_dict list \<Rightarrow> error + item_dict list" where
  "json_dump ds =
     (if list_ex (\<lambda>d. case dict_data d of QPixmap _ \<Rightarrow> True | Str _ \<Rightarrow> False) ds
      then Inl TypeError else Inr ds)"

definition save_items_to_file :: "state \<Rightarrow> error + item_dict list" where
  "save_items_to_file s = json_dump (save_items_to_file_data s)"

text \<open>
  The history file as \<^verbatim>\<open>load_items_from_file\<close> meets it: absent
  (\<^verbatim>\<open>os.path.exists\<close> is false), present but \<^verbatim>\<open>open\<close> raises, present but not JSON
  (\<^verbatim>\<open>json.load\<close> raises), or a JSON list of dictionaries with the four keys. The
  payloads of a real file are strings; what is proved of \<open>Records\<close> holds for any payload.
\<close>

datatype history_file = NoFile | Unreadable | NotJson | Records "item_dict list"

text \<open>The loop of lines 441-443.\<close>

fun load_items :: "item_dict list \<Rightarrow> state \<Rightarrow> state" where
  "load_items [] s = s"
| "load_items (item_data # ds) s =
     (let (item, s') = from_dict item_data s
      in load_items ds (s'\<lparr>items := items s' @ [item]\<rparr>))"

text \<open>
  \<^verbatim>\<open>load_items_from_file\<close> (lines 435-450). There is no \<^verbatim>\<open>try\<close> in the method or
  around its call in \<^verbatim>\<open>__init__\<close>: an exception of \<^verbatim>\<open>open\<close> or \<^verbatim>\<open>json.load\<close> leaves
  the method, the constructor and the program.
\<close>

definition load_items_from_file :: "history_file \<Rightarrow> state \<Rightarrow> error + state" where
  "load_items_from_file f s =
     (case f of
        NoFile \<Rightarrow> Inr s
      | Unreadable \<Rightarrow> Inl OSError
      | NotJson \<Rightarrow> Inl JSONDecodeError
      | Records ds \<Rightarrow>
          (let s1 = load_items ds (s\<lparr>items := []\<rparr>);
               s2 = (if items s1 \<noteq> []
                     then s1\<lparr>counter := Max (set (map index (items s1))) + 1\<rparr>
                     else s1\<lparr>counter := 0\<rparr>)
           in Inr (reorder_items s2)))"

text \<open>
  The state in which \<^verbatim>\<open>ClipboardManager.__init__\<close> calls \<^verbatim>\<open>load_items_from_file\<close>
  (lines 17, 56, 57), and the constructor's result.
\<close>

definition initial_state :: state where
  "initial_state = \<lparr>items = [], counter = 0, is_paused = False\<rparr>"

definition ClipboardManager_init :: "history_file \<Rightarrow> error + state" where
  "ClipboardManager_init f = load_items_from_file f initial_state"

subsection \<open>Reachable states\<close>

text \<open>
  The states of a run of the program, and of the runs after it. A run starts from
  \<open>initial_state\<close> when there is no history file; every handler of the window takes a
  state to the next; and a later run starts from the file that \<^verbatim>\<open>save_items_to_file\<close>
  wrote when the earlier run closed (\<^verbatim>\<open>cleanup\<close>, \<^verbatim>\<open>closeEvent\<close>), which is the only
  writer of that file.
\<close>

inductive reachable :: "(string \<Rightarrow> qurl) \<Rightarrow> state \<Rightarrow> bool" for QUrl :: "string \<Rightarrow> qurl" where
  first_run: "reachable QUrl initial_state"
| next_run:
    "reachable QUrl s \<Longrightarrow> save_items_to_file s = Inr ds \<Longrightarrow>
     ClipboardManager_init (Records ds) = Inr s' \<Longrightarrow> reachable QUrl s'"
| clipboard_change: "reachable QUrl s \<Longrightarrow> reachable QUrl (on_clipboard_change QUrl m s)"
| drop: "reachable QUrl s \<Longrightarrow> reachable QUrl (dropEvent QUrl m s)"
| pause: "reachable QUrl s \<Longrightarrow> reachable QUrl (toggle_pause s)"
| delete_all: "reachable QUrl s \<Longrightarrow> reachable QUrl (delete_all_items r s)"
| delete: "reachable QUrl s \<Longrightarrow> reachable QUrl (delete_item row s)"
| toggle_favorite: "reachable QUrl s \<Longrightarrow> reachable QUrl (toggle_favorite_item row s)"

text \<open>
  The invariant of the reachable states: the items are in the order of the sort key, no
  two share an index or a payload, every index is below the counter, and an item that is
  not an image carries a string.
\<close>

definition well_formed :: "state \<Rightarrow> bool" where
  "well_formed s \<longleftrightarrow>
     sorted (map (\<lambda>x. (\<not> favorite x, index x)) (items s)) \<and>
     distinct (map index (items s)) \<and>
     distinct (map data (items s)) \<and>
     list_all (\<lambda>x. index x < counter s) (items s) \<and>
     list_all (\<lambda>x. data_type x = IMAGE \<or> (case data x of Str _ \<Rightarrow> True | QPixmap _ \<Rightarrow> False))
       (items s)"



section \<open>The invariant of the reachable states\<close>

lemma reorder_items_simps:
  "items (reorder_items s) = sort_key (\<lambda>x. (\<not> favorite x, index x)) (items s)"
  "counter (reorder_items s) = counter s"
  "is_paused (reorder_items s) = is_paused s"
  by (simp_all add: reorder_items_def)

lemma add_item_to_list_simps:
  "items (add_item_to_list x s) = sort_key (\<lambda>x. (\<not> favorite x, index x)) (items s @ [x])"
  "counter (add_item_to_list x s) = counter s"
  "is_paused (add_item_to_list x s) = is_paused s"
  by (simp_all add: add_item_to_list_def reorder_items_def)

lemma distinct_map_sort_key:
  "distinct (map g (sort_key f xs)) = distinct (map g xs)"
  by (simp add: distinct_map)

lemma well_formed_reorder:
  assumes "distinct (map index (items s))" "distinct (map data (items s))"
    "list_all (\<lambda>x. index x < counter s) (items s)"
    "list_all (\<lambda>x. data_type x = IMAGE \<or> (case data x of Str _ \<Rightarrow> True | QPixmap _ \<Rightarrow> False)) (items s)"
  shows "well_formed (reorder_items s)"
  using assms by (simp add: well_formed_def reorder_items_simps distinct_map_sort_key list_all_iff)

lemma well_formed_ingest:
  assumes wf: "well_formed s"
    and fresh: "\<not> list_ex (\<lambda>item. data item = d) (items s)"
    and ty: "dt = IMAGE \<or> (case d of Str _ \<Rightarrow> True | QPixmap _ \<Rightarrow> False)"
  shows "well_formed (add_item_to_list \<lparr>data_type = dt, data = d, favorite = False, index = counter s\<rparr>
           (s\<lparr>counter := counter s + 1\<rparr>))"
  unfolding add_item_to_list_def
  apply (rule well_formed_reorder)
  using assms
  by (auto simp: well_formed_def list_all_iff list_ex_iff)

lemma well_formed_process_mime_data_urls:
  "well_formed s \<Longrightarrow> well_formed (process_mime_data_urls us s)"
proof (induction us arbitrary: s)
  case Nil
  then show ?case by simp
next
  case (Cons u us)
  show ?case
    by (simp add: Cons.IH Cons.prems ClipboardItem_def Let_def well_formed_ingest)
qed

lemma list_ex_pixmap:
  "list_ex (\<lambda>item. case data item of QPixmap p \<Rightarrow> toImage p = toImage q | Str _ \<Rightarrow> False) xs
     = list_ex (\<lambda>item. data item = QPixmap q) xs"
proof -
  have "(case d of QPixmap p \<Rightarrow> toImage p = toImage q | Str _ \<Rightarrow> False) = (d = QPixmap q)" for d
    by (cases d) (auto simp: qpixmap.expand)
  then show ?thesis by simp
qed

lemma well_formed_process_mime_data:
  "well_formed s \<Longrightarrow> well_formed (process_mime_data QUrl m s)"
  unfolding process_mime_data_def list_ex_pixmap
  by (simp add: ClipboardItem_def Let_def well_formed_ingest well_formed_process_mime_data_urls)

lemma sorted_map_remove_nth:
  "sorted (map f xs) \<Longrightarrow> sorted (map f (take n xs @ drop (Suc n) xs))"
proof (induction xs arbitrary: n)
  case Nil
  then show ?case by simp
next
  case (Cons x xs)
  then show ?case
    by (cases n) (auto dest: in_set_takeD in_set_dropD)
qed

lemma distinct_map_remove_nth:
  "distinct (map f xs) \<Longrightarrow> distinct (map f (take n xs @ drop (Suc n) xs))"
proof (induction xs arbitrary: n)
  case Nil
  then show ?case by simp
next
  case (Cons x xs)
  then show ?case
    by (cases n) (auto dest: in_set_takeD in_set_dropD)
qed

lemma well_formed_delete_item:
  assumes "well_formed s"
  shows "well_formed (delete_item row s)"
proof -
  let ?ys = "take row (items s) @ drop (Suc row) (items s)"
  have sub: "set ?ys \<subseteq> set (items s)"
    by (auto dest: in_set_takeD in_set_dropD)
  have "sorted (map (\<lambda>x. (\<not> favorite x, index x)) ?ys)"
    using assms by (simp only: well_formed_def sorted_map_remove_nth)
  moreover have "distinct (map index ?ys)" "distinct (map data ?ys)"
    using assms by (simp_all only: well_formed_def distinct_map_remove_nth)
  moreover have "list_all (\<lambda>x. index x < counter s) ?ys"
    using assms sub unfolding well_formed_def list_all_iff by blast
  moreover have "list_all (\<lambda>x. data_type x = IMAGE \<or> (case data x of Str _ \<Rightarrow> True | QPixmap _ \<Rightarrow> False)) ?ys"
    using assms sub unfolding well_formed_def list_all_iff by blast
  ultimately show ?thesis
    by (simp add: well_formed_def delete_item_def)
qed

lemma map_update_same:
  "row < length xs \<Longrightarrow> f y = f (xs ! row) \<Longrightarrow> map f (xs[row := y]) = map f xs"
  by (rule nth_equalityI) (auto simp: nth_list_update)

lemma well_formed_toggle_favorite_item:
  assumes "well_formed s"
  shows "well_formed (toggle_favorite_item row s)"
proof (cases "row < length (items s)")
  case False
  with assms show ?thesis by (simp add: toggle_favorite_item_def)
next
  case True
  let ?x = "(items s ! row)\<lparr>favorite := \<not> favorite (items s ! row)\<rparr>"
  let ?ys = "(items s)[row := ?x]"
  have mem: "items s ! row \<in> set (items s)" using True by simp
  have sub: "set ?ys \<subseteq> insert ?x (set (items s))"
    by (rule set_update_subset_insert)
  have "well_formed (reorder_items (s\<lparr>items := ?ys\<rparr>))"
  proof (rule well_formed_reorder)
    show "distinct (map index (items (s\<lparr>items := ?ys\<rparr>)))"
      using assms True by (simp add: well_formed_def map_update_same)
    show "distinct (map data (items (s\<lparr>items := ?ys\<rparr>)))"
      using assms True by (simp add: well_formed_def map_update_same)
    show "list_all (\<lambda>x. index x < counter (s\<lparr>items := ?ys\<rparr>)) (items (s\<lparr>items := ?ys\<rparr>))"
      using assms mem sub by (fastforce simp: well_formed_def list_all_iff)
    show "list_all (\<lambda>x. data_type x = IMAGE \<or> (case data x of Str _ \<Rightarrow> True | QPixmap _ \<Rightarrow> False))
            (items (s\<lparr>items := ?ys\<rparr>))"
      using assms mem sub by (fastforce simp: well_formed_def list_all_iff)
  qed
  with True show ?thesis by (simp add: toggle_favorite_item_def Let_def)
qed

lemma load_items_to_dict:
  "load_items (map to_dict xs) s =
     s\<lparr>items := items s @ xs, counter := counter s + int (length xs)\<rparr>"
  by (induction xs arbitrary: s) (simp_all add: from_dict_def ClipboardItem_def to_dict_def)

lemma json_dump_Inr: "json_dump ds = Inr ds' \<Longrightarrow> ds' = ds"
  by (simp add: json_dump_def split: if_splits)

lemma restart_state:
  assumes "save_items_to_file s = Inr ds" "ClipboardManager_init (Records ds) = Inr s'"
  shows "s' = \<lparr>items = sort_key (\<lambda>x. (\<not> favorite x, index x))
                         (filter (\<lambda>item. data_type item \<noteq> IMAGE) (items s)),
               counter = (if filter (\<lambda>item. data_type item \<noteq> IMAGE) (items s) = [] then 0
                          else Max (set (map index (filter (\<lambda>item. data_type item \<noteq> IMAGE) (items s)))) + 1),
               is_paused = False\<rparr>"
proof -
  have ds: "ds = map to_dict (filter (\<lambda>item. data_type item \<noteq> IMAGE) (items s))"
    using assms(1) json_dump_Inr by (auto simp: save_items_to_file_def save_items_to_file_data_def)
  show ?thesis
    using assms(2) unfolding ds
    by (auto simp: ClipboardManager_init_def load_items_from_file_def load_items_to_dict
          initial_state_def reorder_items_def Let_def)
qed

lemma well_formed_restart:
  assumes wf: "well_formed s"
    and "save_items_to_file s = Inr ds" "ClipboardManager_init (Records ds) = Inr s'"
  shows "well_formed s'"
proof -
  let ?xs = "filter (\<lambda>item. data_type item \<noteq> IMAGE) (items s)"
  note r = restart_state [OF assms(2,3)]
  have bound: "index x < counter s'" if "x \<in> set ?xs" for x
  proof -
    from that have ne: "?xs \<noteq> []" by (auto simp: filter_empty_conv)
    have "index x \<le> Max (set (map index ?xs))"
      using that by (intro Max_ge) auto
    with ne show ?thesis unfolding r by simp
  qed
  have "list_all (\<lambda>x. index x < counter s') ?xs"
    using bound unfolding list_all_iff by blast
  moreover have "items s' = sort_key (\<lambda>x. (\<not> favorite x, index x)) ?xs"
    unfolding r by simp
  ultimately show ?thesis
    using wf
    by (auto simp: well_formed_def distinct_map_sort_key distinct_map_filter list_all_iff)
qed

lemma reachable_well_formed: "reachable QUrl s \<Longrightarrow> well_formed s"
proof (induction rule: reachable.induct)
  case first_run
  show ?case by (simp add: well_formed_def initial_state_def)
next
  case (next_run s ds s')
  then show ?case by (blast intro: well_formed_restart)
next
  case (clipboard_change s m)
  then show ?case by (simp add: on_clipboard_change_def well_formed_process_mime_data)
next
  case (drop s m)
  then show ?case by (simp add: dropEvent_def well_formed_process_mime_data)
next
  case (pause s)
  then show ?case by (simp add: toggle_pause_def well_formed_def)
next
  case (delete_all s r)
  then show ?case by (simp add: delete_all_items_def well_formed_def)
next
  case (delete s row)
  then show ?case by (simp add: well_formed_delete_item)
next
  case (toggle_favorite s row)
  then show ?case by (simp add: well_formed_toggle_favorite_item)
qed

section \<open>The display order\<close>

lemma sorted_key_favorites_first:
  "sorted (map (\<lambda>x. (\<not> favorite x, index x)) xs) \<Longrightarrow>
   xs = filter favorite xs @ filter (\<lambda>x. \<not> favorite x) xs"
proof (induction xs)
  case Nil
  then show ?case by simp
next
  case (Cons x xs)
  show ?case
  proof (cases "favorite x")
    case True
    with Cons show ?thesis by simp
  next
    case False
    with Cons.prems have "\<forall>y\<in>set xs. \<not> favorite y" by auto
    then have "filter favorite xs = []" "filter (\<lambda>x. \<not> favorite x) xs = xs"
      by (simp_all add: filter_empty_conv filter_id_conv)
    with False show ?thesis by simp
  qed
qed

lemma sorted_key_index_in_partition:
  "sorted (map (\<lambda>x. (\<not> favorite x, index x)) xs) \<Longrightarrow>
   sorted (map index (filter (\<lambda>x. favorite x = b) xs))"
  by (induction xs) auto

lemma strict_index_in_partition:
  assumes "sorted (map (\<lambda>x. (\<not> favorite x, index x)) xs)" "distinct (map index xs)"
  shows "sorted_wrt (<) (map index (filter (\<lambda>x. favorite x = b) xs))"
  using assms
  by (simp add: strict_sorted_iff sorted_key_index_in_partition distinct_map_filter)

lemma reorder_unique:
  assumes "sorted (map (\<lambda>x. (\<not> favorite x, index x)) ys)" "distinct (map index ys)"
    and "set xs = set ys" "distinct xs"
  shows "sort_key (\<lambda>x. (\<not> favorite x, index x)) xs = ys"
proof (rule map_sorted_distinct_set_unique [where f = "\<lambda>x. (\<not> favorite x, index x)"])
  have inj_i: "inj_on index (set ys)"
    using assms(2) by (simp add: distinct_map)
  then have inj: "inj_on (\<lambda>x. (\<not> favorite x, index x)) (set ys)"
    by (auto simp: inj_on_def)
  show "inj_on (\<lambda>x. (\<not> favorite x, index x)) (set (sort_key (\<lambda>x. (\<not> favorite x, index x)) xs) \<union> set ys)"
    using inj assms(3) by simp
  show "sorted (map (\<lambda>x. (\<not> favorite x, index x)) (sort_key (\<lambda>x. (\<not> favorite x, index x)) xs))"
    by simp
  show "distinct (map (\<lambda>x. (\<not> favorite x, index x)) (sort_key (\<lambda>x. (\<not> favorite x, index x)) xs))"
    using inj assms(3,4) by (simp add: distinct_map)
  show "sorted (map (\<lambda>x. (\<not> favorite x, index x)) ys)" by (rule assms(1))
  show "distinct (map (\<lambda>x. (\<not> favorite x, index x)) ys)"
    using inj assms(2) by (simp add: distinct_map)
  show "set (sort_key (\<lambda>x. (\<not> favorite x, index x)) xs) = set ys"
    using assms(3) by simp
qed

text \<open>
  A start from any list of records, also one that no run has saved, gives the favorites
  first and, in each of the two parts, indices that do not decrease; they increase
  strictly when no two records share an index.
\<close>

lemma display_order_after_load:
  assumes "load_items_from_file (Records ds) s = Inr s'"
  shows "items s' = filter favorite (items s') @ filter (\<lambda>x. \<not> favorite x) (items s')"
    and "sorted (map index (filter (\<lambda>x. favorite x = b) (items s')))"
proof -
  from assms have "items s' = items (reorder_items s')"
    by (auto simp: load_items_from_file_def Let_def reorder_items_def sort_key_id_if_sorted)
  then have srt: "sorted (map (\<lambda>x. (\<not> favorite x, index x)) (items s'))"
    by (metis reorder_items_simps(1) sorted_sort_key)
  show "items s' = filter favorite (items s') @ filter (\<lambda>x. \<not> favorite x) (items s')"
    using srt by (rule sorted_key_favorites_first)
  show "sorted (map index (filter (\<lambda>x. favorite x = b) (items s')))"
    using srt by (rule sorted_key_index_in_partition)
qed

text \<open>
  Claim C3. In every reachable state the list \<^verbatim>\<open>self.items\<close>, which is the order of the
  rows shown, has every favorite item before every other item, and in each of the two
  parts the indices are strictly increasing. The order depends on the set of items only:
  \<^verbatim>\<open>reorder_items\<close> on any duplicate-free listing of the same items gives the same list.
\<close>

theorem display_order:
  assumes "reachable QUrl s"
  shows "items s = filter favorite (items s) @ filter (\<lambda>x. \<not> favorite x) (items s) \<and>
         sorted_wrt (<) (map index (filter favorite (items s))) \<and>
         sorted_wrt (<) (map index (filter (\<lambda>x. \<not> favorite x) (items s))) \<and>
         (\<forall>xs. set xs = set (items s) \<and> distinct xs \<longrightarrow>
               items (reorder_items (s\<lparr>items := xs\<rparr>)) = items s)"
proof -
  from assms have wf: "well_formed s" by (rule reachable_well_formed)
  then have srt: "sorted (map (\<lambda>x. (\<not> favorite x, index x)) (items s))"
    and dist: "distinct (map index (items s))"
    by (simp_all add: well_formed_def)
  have "items s = filter favorite (items s) @ filter (\<lambda>x. \<not> favorite x) (items s)"
    using srt by (rule sorted_key_favorites_first)
  moreover have "sorted_wrt (<) (map index (filter favorite (items s)))"
    using strict_index_in_partition [OF srt dist, of True] by simp
  moreover have "sorted_wrt (<) (map index (filter (\<lambda>x. \<not> favorite x) (items s)))"
    using strict_index_in_partition [OF srt dist, of False] by simp
  moreover have "\<forall>xs. set xs = set (items s) \<and> distinct xs \<longrightarrow>
               items (reorder_items (s\<lparr>items := xs\<rparr>)) = items s"
    using reorder_unique [OF srt dist] by (simp add: reorder_items_def)
  ultimately show ?thesis by blast
qed

theorem display_order_witness:
  "reachable (\<lambda>_. \<lparr>isLocalFile = False, toLocalFile = []\<rparr>)
     (toggle_favorite_item 1
       (on_clipboard_change (\<lambda>_. \<lparr>isLocalFile = False, toLocalFile = []\<rparr>)
          \<lparr>hasText = True, mime_text = ''b'', hasImage = False, imageData = QImage [], hasUrls = False, urls = []\<rparr>
          (on_clipboard_change (\<lambda>_. \<lparr>isLocalFile = False, toLocalFile = []\<rparr>)
             \<lparr>hasText = True, mime_text = ''http://a'', hasImage = False, imageData = QImage [], hasUrls = False, urls = []\<rparr>
             initial_state))) \<and>
   items (toggle_favorite_item 1
       (on_clipboard_change (\<lambda>_. \<lparr>isLocalFile = False, toLocalFile = []\<rparr>)
          \<lparr>hasText = True, mime_text = ''b'', hasImage = False, imageData = QImage [], hasUrls = False, urls = []\<rparr>
          (on_clipboard_change (\<lambda>_. \<lparr>isLocalFile = False, toLocalFile = []\<rparr>)
             \<lparr>hasText = True, mime_text = ''http://a'', hasImage = False, imageData = QImage [], hasUrls = False, urls = []\<rparr>
             initial_state))) =
     [\<lparr>data_type = TEXT, data = Str ''b'', favorite = True, index = 1\<rparr>,
      \<lparr>data_type = URL, data = Str ''http://a'', favorite = False, index = 0\<rparr>] \<and>
   sorted_wrt (<) (map index (filter favorite (items (toggle_favorite_item 1
       (on_clipboard_change (\<lambda>_. \<lparr>isLocalFile = False, toLocalFile = []\<rparr>)
          \<lparr>hasText = True, mime_text = ''b'', hasImage = False, imageData = QImage [], hasUrls = False, urls = []\<rparr>
          (on_clipboard_change (\<lambda>_. \<lparr>isLocalFile = False, toLocalFile = []\<rparr>)
             \<lparr>hasText = True, mime_text = ''http://a'', hasImage = False, imageData = QImage [], hasUrls = False, urls = []\<rparr>
             initial_state))))))"
proof -
  let ?Q = "\<lambda>_::string. \<lparr>isLocalFile = False, toLocalFile = []\<rparr>"
  let ?s = "toggle_favorite_item 1
       (on_clipboard_change ?Q
          \<lparr>hasText = True, mime_text = ''b'', hasImage = False, imageData = QImage [], hasUrls = False, urls = []\<rparr>
          (on_clipboard_change ?Q
             \<lparr>hasText = True, mime_text = ''http://a'', hasImage = False, imageData = QImage [], hasUrls = False, urls = []\<rparr>
             initial_state))"
  have r: "reachable ?Q ?s"
    by (intro reachable.toggle_favorite reachable.clipboard_change reachable.first_run)
  have i: "items ?s = [\<lparr>data_type = TEXT, data = Str ''b'', favorite = True, index = 1\<rparr>,
      \<lparr>data_type = URL, data = Str ''http://a'', favorite = False, index = 0\<rparr>]"
    by (simp add: toggle_favorite_item_def on_clipboard_change_def process_mime_data_def initial_state_def
          startswith_def ClipboardItem_def add_item_to_list_def reorder_items_def)
  from display_order [OF r] have "sorted_wrt (<) (map index (filter favorite (items ?s)))"
    by blast
  with r i show ?thesis by blast
qed

section \<open>No duplicate payloads\<close>

lemma reachable_foldl_on_clipboard_change:
  "reachable QUrl s \<Longrightarrow> reachable QUrl (foldl (\<lambda>s m. on_clipboard_change QUrl m s) s ms)"
  by (induction ms arbitrary: s) (simp_all add: reachable.clipboard_change)

lemma distinct_data_nth:
  assumes "distinct (map data xs)" "i < j" "j < length xs"
  shows "case (data (xs ! i), data (xs ! j)) of
           (Str a, Str b) \<Rightarrow> a \<noteq> b
         | (QPixmap p, QPixmap q) \<Rightarrow> toImage p \<noteq> toImage q
         | _ \<Rightarrow> True"
proof -
  from assms have "map data xs ! i \<noteq> map data xs ! j"
    using nth_eq_iff_index_eq [of "map data xs" i j] by simp
  with assms have "data (xs ! i) \<noteq> data (xs ! j)" by simp
  then show ?thesis
    by (auto split: pydata.splits simp: qpixmap.expand)
qed

text \<open>
  Claim C1. After any sequence of clipboard changes from the empty store of a first run
  (which is not paused), no two items of the store have equal payloads: two strings are
  compared as strings, two pixmaps by their decoded images, whatever the kinds of the two
  items, and a string is never equal to a pixmap.
\<close>

theorem ingest_no_duplicate_payloads:
  "distinct (map data (items (foldl (\<lambda>s m. on_clipboard_change QUrl m s) initial_state ms))) \<and>
   (\<forall>i j. i < j \<and> j < length (items (foldl (\<lambda>s m. on_clipboard_change QUrl m s) initial_state ms)) \<longrightarrow>
      (case (data (items (foldl (\<lambda>s m. on_clipboard_change QUrl m s) initial_state ms) ! i),
             data (items (foldl (\<lambda>s m. on_clipboard_change QUrl m s) initial_state ms) ! j)) of
         (Str a, Str b) \<Rightarrow> a \<noteq> b
       | (QPixmap p, QPixmap q) \<Rightarrow> toImage p \<noteq> toImage q
       | _ \<Rightarrow> True))"
proof -
  let ?s = "foldl (\<lambda>s m. on_clipboard_change QUrl m s) initial_state ms"
  have "reachable QUrl ?s"
    by (rule reachable_foldl_on_clipboard_change) (rule reachable.first_run)
  then have d: "distinct (map data (items ?s))"
    by (auto dest: reachable_well_formed simp: well_formed_def)
  show ?thesis
    using d distinct_data_nth [OF d] by blast
qed

theorem ingest_no_duplicate_payloads_witness:
  "length (items (foldl (\<lambda>s m. on_clipboard_change (\<lambda>_. \<lparr>isLocalFile = False, toLocalFile = []\<rparr>) m s) initial_state
      [\<lparr>hasText = True, mime_text = ''hello'', hasImage = False, imageData = QImage [], hasUrls = False, urls = []\<rparr>,
       \<lparr>hasText = True, mime_text = ''hello'', hasImage = False, imageData = QImage [], hasUrls = False, urls = []\<rparr>])) = 1 \<and>
   distinct (map data (items (foldl (\<lambda>s m. on_clipboard_change (\<lambda>_. \<lparr>isLocalFile = False, toLocalFile = []\<rparr>) m s) initial_state
      [\<lparr>hasText = True, mime_text = ''hello'', hasImage = False, imageData = QImage [], hasUrls = False, urls = []\<rparr>,
       \<lparr>hasText = True, mime_text = ''hello'', hasImage = False, imageData = QImage [], hasUrls = False, urls = []\<rparr>])))"
  using ingest_no_duplicate_payloads [of "\<lambda>_. \<lparr>isLocalFile = False, toLocalFile = []\<rparr>"
      "[\<lparr>hasText = True, mime_text = ''hello'', hasImage = False, imageData = QImage [], hasUrls = False, urls = []\<rparr>,
       \<lparr>hasText = True, mime_text = ''hello'', hasImage = False, imageData = QImage [], hasUrls = False, urls = []\<rparr>]"]
  by (simp add: on_clipboard_change_def process_mime_data_def initial_state_def startswith_def
        ClipboardItem_def add_item_to_list_def reorder_items_def)

section \<open>Pause\<close>

text \<open>
  Claim C7. While \<^verbatim>\<open>is_paused\<close> is true, any number of calls of \<^verbatim>\<open>on_clipboard_change\<close>,
  with any clipboard contents, leave the whole state as it was: the items, the counter
  and the pause flag.
\<close>

theorem paused_clipboard_changes_ignored:
  "is_paused s \<Longrightarrow> foldl (\<lambda>s m. on_clipboard_change QUrl m s) s ms = s"
  by (induction ms) (simp_all add: on_clipboard_change_def)

theorem paused_clipboard_changes_ignored_witness:
  "is_paused \<lparr>items = [], counter = 0, is_paused = True\<rparr> \<and>
   foldl (\<lambda>s m. on_clipboard_change (\<lambda>_. \<lparr>isLocalFile = False, toLocalFile = []\<rparr>) m s)
     \<lparr>items = [], counter = 0, is_paused = True\<rparr>
     [\<lparr>hasText = True, mime_text = ''hello'', hasImage = False, imageData = QImage [], hasUrls = False, urls = []\<rparr>,
      \<lparr>hasText = False, mime_text = [], hasImage = True, imageData = QImage [1, 2], hasUrls = False, urls = []\<rparr>]
   = \<lparr>items = [], counter = 0, is_paused = True\<rparr>"
  using paused_clipboard_changes_ignored [of "\<lparr>items = [], counter = 0, is_paused = True\<rparr>"
      "\<lambda>_. \<lparr>isLocalFile = False, toLocalFile = []\<rparr>"
      "[\<lparr>hasText = True, mime_text = ''hello'', hasImage = False, imageData = QImage [], hasUrls = False, urls = []\<rparr>,
        \<lparr>hasText = False, mime_text = [], hasImage = True, imageData = QImage [1, 2], hasUrls = False, urls = []\<rparr>]"]
  by simp

section \<open>Loading\<close>

text \<open>
  Claim C4 says that a malformed or unreadable history file gives an empty store and that
  startup goes on. It does not: on a file that is not JSON, \<^verbatim>\<open>json.load\<close> raises and
  the constructor ends with that exception instead of an empty store.
\<close>

theorem malformed_history_file_counterexample:
  "ClipboardManager_init NotJson = Inl JSONDecodeError \<and>
   ClipboardManager_init NotJson \<noteq> Inr \<lparr>items = [], counter = 0, is_paused = False\<rparr>"
  by (simp add: ClipboardManager_init_def load_items_from_file_def)

text \<open>
  Claim C4, as the code has it. Only an absent file leaves the store as it is, empty at
  startup; a file that cannot be opened or is not JSON ends \<^verbatim>\<open>load_items_from_file\<close>,
  and with it the constructor, by the exception of \<^verbatim>\<open>open\<close> or \<^verbatim>\<open>json.load\<close>;
  a list of records always loads.
\<close>

theorem load_items_from_file_results:
  "load_items_from_file NoFile s = Inr s \<and>
   ClipboardManager_init NoFile = Inr initial_state \<and> items initial_state = [] \<and>
   load_items_from_file Unreadable s = Inl OSError \<and>
   load_items_from_file NotJson s = Inl JSONDecodeError \<and>
   (\<exists>s'. load_items_from_file (Records ds) s = Inr s')"
  by (simp add: ClipboardManager_init_def load_items_from_file_def initial_state_def Let_def)

lemma load_items_eq:
  "load_items ds s =
     s\<lparr>items := items s @ map (\<lambda>d. \<lparr>data_type = dict_data_type d, data = dict_data d,
                                     favorite = dict_favorite d, index = dict_index d\<rparr>) ds,
       counter := counter s + int (length ds)\<rparr>"
  by (induction ds arbitrary: s) (simp_all add: from_dict_def ClipboardItem_def)

lemma load_items_from_file_Records:
  "load_items_from_file (Records ds) s =
     Inr \<lparr>items = sort_key (\<lambda>x. (\<not> favorite x, index x))
                    (map (\<lambda>d. \<lparr>data_type = dict_data_type d, data = dict_data d,
                                favorite = dict_favorite d, index = dict_index d\<rparr>) ds),
          counter = (if ds = [] then 0 else Max (set (map dict_index ds)) + 1),
          is_paused = is_paused s\<rparr>"
  by (cases s) (auto simp: load_items_from_file_def load_items_eq reorder_items_def Let_def comp_def image_image)

section \<open>Single candidates\<close>

lemma set_items_add_item_to_list:
  "set (items (add_item_to_list x s)) = insert x (set (items s))"
  by (simp add: add_item_to_list_def reorder_items_def)

lemma process_mime_data_text:
  assumes "hasText m" "mime_text m \<noteq> []"
  shows "\<exists>dt d. dt \<noteq> IMAGE \<and> (d = mime_text m \<or> d = toLocalFile (QUrl (mime_text m))) \<and>
           process_mime_data QUrl m s =
             (if list_ex (\<lambda>item. data item = Str d) (items s) then s
              else add_item_to_list \<lparr>data_type = dt, data = Str d, favorite = False, index = counter s\<rparr>
                     (s\<lparr>counter := counter s + 1\<rparr>))"
  using assms by (auto simp: process_mime_data_def ClipboardItem_def Let_def)

lemma process_mime_data_image:
  assumes "\<not> hasText m" "hasImage m"
  shows "process_mime_data QUrl m s =
           (if list_ex (\<lambda>item. data item = QPixmap (fromImage (imageData m))) (items s) then s
            else add_item_to_list
                   \<lparr>data_type = IMAGE, data = QPixmap (fromImage (imageData m)), favorite = False,
                      index = counter s\<rparr>
                   (s\<lparr>counter := counter s + 1\<rparr>))"
  using assms unfolding process_mime_data_def list_ex_pixmap
  by (simp add: ClipboardItem_def Let_def)

lemma process_mime_data_urls_new:
  "\<forall>x\<in>set (items (process_mime_data_urls us s)).
      x \<in> set (items s) \<or>
      data_type x = FILE \<and> (\<exists>u\<in>set us. isLocalFile u \<and> data x = Str (toLocalFile u))"
proof (induction us arbitrary: s)
  case Nil
  show ?case by simp
next
  case (Cons u us)
  show ?case
  proof
    fix x
    assume x: "x \<in> set (items (process_mime_data_urls (u # us) s))"
    let ?s1 = "(if isLocalFile u then
          (let file_path = toLocalFile u in
           if file_path \<noteq> [] then
             (if \<not> list_ex (\<lambda>item. data item = Str file_path) (items s) then
                (let (item, s') = ClipboardItem FILE (Str file_path) False s
                 in add_item_to_list item s')
              else s)
           else s)
        else s)"
    have step: "\<forall>y\<in>set (items ?s1). y \<in> set (items s) \<or>
        data_type y = FILE \<and> isLocalFile u \<and> data y = Str (toLocalFile u)"
      by (auto simp: ClipboardItem_def Let_def set_items_add_item_to_list)
    from x have "x \<in> set (items (process_mime_data_urls us ?s1))" by simp
    with Cons.IH [of ?s1]
    have "x \<in> set (items ?s1) \<or>
      data_type x = FILE \<and> (\<exists>u\<in>set us. isLocalFile u \<and> data x = Str (toLocalFile u))"
      by blast
    with step
    show "x \<in> set (items s) \<or>
      data_type x = FILE \<and> (\<exists>v\<in>set (u # us). isLocalFile v \<and> data x = Str (toLocalFile v))"
      by fastforce
  qed
qed

section \<open>Order of the checks\<close>

text \<open>
  Claim C2 says that the image is looked at first, so that a clipboard holding an image
  and a text gives an image item. On such a clipboard the code stores the text and no
  image.
\<close>

theorem image_first_counterexample:
  "items (process_mime_data (\<lambda>_. \<lparr>isLocalFile = False, toLocalFile = []\<rparr>)
     \<lparr>hasText = True, mime_text = ''hello'', hasImage = True, imageData = QImage [1], hasUrls = False, urls = []\<rparr>
     initial_state)
   = [\<lparr>data_type = TEXT, data = Str ''hello'', favorite = False, index = 0\<rparr>] \<and>
   \<not> list_ex (\<lambda>item. data_type item = IMAGE)
      (items (process_mime_data (\<lambda>_. \<lparr>isLocalFile = False, toLocalFile = []\<rparr>)
         \<lparr>hasText = True, mime_text = ''hello'', hasImage = True, imageData = QImage [1], hasUrls = False, urls = []\<rparr>
         initial_state))"
  by (simp add: process_mime_data_def initial_state_def startswith_def ClipboardItem_def
        add_item_to_list_def reorder_items_def)

text \<open>
  Claim C2, as the code has it. The checks run in the order text, image, URLs. When
  \<^verbatim>\<open>hasText()\<close> holds and the text is empty nothing changes, whatever else the clipboard
  holds; when the text is not empty, its payload (the text, or the local path of a
  \<^verbatim>\<open>file://\<close> text) is in the store afterwards and every item that was not there before
  carries it and is not an image. An image item is only made when \<^verbatim>\<open>hasText()\<close> is
  false and \<^verbatim>\<open>hasImage()\<close> is true, and file items from the URL list only when both are
  false.
\<close>

theorem process_mime_data_text_first:
  "(hasText m \<and> mime_text m = [] \<longrightarrow> process_mime_data QUrl m s = s) \<and>
   (hasText m \<and> mime_text m \<noteq> [] \<longrightarrow>
      (\<exists>d. (d = mime_text m \<or> d = toLocalFile (QUrl (mime_text m))) \<and>
           list_ex (\<lambda>item. data item = Str d) (items (process_mime_data QUrl m s)) \<and>
           (\<forall>x\<in>set (items (process_mime_data QUrl m s)).
               x \<in> set (items s) \<or> data_type x \<noteq> IMAGE \<and> data x = Str d))) \<and>
   (\<not> hasText m \<and> hasImage m \<longrightarrow>
      list_ex (\<lambda>item. data item = QPixmap (fromImage (imageData m))) (items (process_mime_data QUrl m s)) \<and>
      (\<forall>x\<in>set (items (process_mime_data QUrl m s)).
          x \<in> set (items s) \<or> data_type x = IMAGE \<and> data x = QPixmap (fromImage (imageData m)))) \<and>
   (\<not> hasText m \<and> \<not> hasImage m \<longrightarrow>
      (\<forall>x\<in>set (items (process_mime_data QUrl m s)).
          x \<in> set (items s) \<or>
          hasUrls m \<and> data_type x = FILE \<and> (\<exists>u\<in>set (urls m). isLocalFile u \<and> data x = Str (toLocalFile u))))"
proof (intro conjI impI)
  assume "hasText m \<and> mime_text m = []"
  then show "process_mime_data QUrl m s = s"
    by (simp add: process_mime_data_def)
next
  assume a: "hasText m \<and> mime_text m \<noteq> []"
  then obtain dt d where dt: "dt \<noteq> IMAGE"
    and d: "d = mime_text m \<or> d = toLocalFile (QUrl (mime_text m))"
    and eq: "process_mime_data QUrl m s =
             (if list_ex (\<lambda>item. data item = Str d) (items s) then s
              else add_item_to_list \<lparr>data_type = dt, data = Str d, favorite = False, index = counter s\<rparr>
                     (s\<lparr>counter := counter s + 1\<rparr>))"
    using process_mime_data_text [of m QUrl s] by blast
  have "list_ex (\<lambda>item. data item = Str d) (items (process_mime_data QUrl m s))"
    unfolding eq by (simp add: list_ex_iff set_items_add_item_to_list)
  moreover have "\<forall>x\<in>set (items (process_mime_data QUrl m s)).
               x \<in> set (items s) \<or> data_type x \<noteq> IMAGE \<and> data x = Str d"
    unfolding eq using dt by (simp add: set_items_add_item_to_list)
  ultimately show "\<exists>d. (d = mime_text m \<or> d = toLocalFile (QUrl (mime_text m))) \<and>
           list_ex (\<lambda>item. data item = Str d) (items (process_mime_data QUrl m s)) \<and>
           (\<forall>x\<in>set (items (process_mime_data QUrl m s)).
               x \<in> set (items s) \<or> data_type x \<noteq> IMAGE \<and> data x = Str d)"
    using d by blast
next
  assume a: "\<not> hasText m \<and> hasImage m"
  then show "list_ex (\<lambda>item. data item = QPixmap (fromImage (imageData m))) (items (process_mime_data QUrl m s))"
    by (simp add: process_mime_data_image list_ex_iff set_items_add_item_to_list)
next
  assume a: "\<not> hasText m \<and> hasImage m"
  then show "\<forall>x\<in>set (items (process_mime_data QUrl m s)).
          x \<in> set (items s) \<or> data_type x = IMAGE \<and> data x = QPixmap (fromImage (imageData m))"
    by (simp add: process_mime_data_image set_items_add_item_to_list)
next
  assume a: "\<not> hasText m \<and> \<not> hasImage m"
  show "\<forall>x\<in>set (items (process_mime_data QUrl m s)).
          x \<in> set (items s) \<or>
          hasUrls m \<and> data_type x = FILE \<and> (\<exists>u\<in>set (urls m). isLocalFile u \<and> data x = Str (toLocalFile u))"
  proof (cases "hasUrls m")
    case True
    with a process_mime_data_urls_new [of "urls m" s] show ?thesis
      by (simp add: process_mime_data_def)
  next
    case False
    with a show ?thesis by (simp add: process_mime_data_def)
  qed
qed

theorem process_mime_data_text_first_witness:
  "(hasText \<lparr>hasText = True, mime_text = ''hello'', hasImage = True, imageData = QImage [1], hasUrls = False, urls = []\<rparr> \<and>
    mime_text \<lparr>hasText = True, mime_text = ''hello'', hasImage = True, imageData = QImage [1], hasUrls = False, urls = []\<rparr> \<noteq> []) \<and>
   (\<exists>d. (d = ''hello'' \<or> d = toLocalFile \<lparr>isLocalFile = False, toLocalFile = []\<rparr>) \<and>
        list_ex (\<lambda>item. data item = Str d)
          (items (process_mime_data (\<lambda>_. \<lparr>isLocalFile = False, toLocalFile = []\<rparr>)
             \<lparr>hasText = True, mime_text = ''hello'', hasImage = True, imageData = QImage [1], hasUrls = False, urls = []\<rparr>
             initial_state)) \<and>
        (\<forall>x\<in>set (items (process_mime_data (\<lambda>_. \<lparr>isLocalFile = False, toLocalFile = []\<rparr>)
             \<lparr>hasText = True, mime_text = ''hello'', hasImage = True, imageData = QImage [1], hasUrls = False, urls = []\<rparr>
             initial_state)).
            x \<in> set (items initial_state) \<or> data_type x \<noteq> IMAGE \<and> data x = Str d))"
  using process_mime_data_text_first [of
      "\<lparr>hasText = True, mime_text = ''hello'', hasImage = True, imageData = QImage [1], hasUrls = False, urls = []\<rparr>"
      "\<lambda>_. \<lparr>isLocalFile = False, toLocalFile = []\<rparr>" initial_state]
  by simp

section \<open>Saving\<close>

text \<open>
  Claim C6. The list that \<^verbatim>\<open>save_items_to_file\<close> writes has, for every item that is not
  an image, a record with the item's \<^verbatim>\<open>data_type\<close>, \<^verbatim>\<open>data\<close>, \<^verbatim>\<open>favorite\<close> and
  \<^verbatim>\<open>index\<close>; every record comes from such an item, none has the tag of an image, and
  there are as many records as items that are not images. When only image items carry
  pixmaps, as in every reachable state, every payload written is a string and
  \<^verbatim>\<open>json.dump\<close> succeeds.
\<close>

theorem save_items_to_file_data_no_image:
  "(\<forall>item\<in>set (items s). data_type item \<noteq> IMAGE \<longrightarrow>
      (\<exists>r\<in>set (save_items_to_file_data s).
          dict_data_type r = data_type item \<and> dict_data r = data item \<and>
          dict_favorite r = favorite item \<and> dict_index r = index item)) \<and>
   (\<forall>r\<in>set (save_items_to_file_data s).
      dict_data_type r \<noteq> IMAGE \<and>
      (\<exists>item\<in>set (items s). data_type item \<noteq> IMAGE \<and> r = to_dict item)) \<and>
   length (save_items_to_file_data s) = length (filter (\<lambda>item. data_type item \<noteq> IMAGE) (items s)) \<and>
   ((\<forall>item\<in>set (items s). (\<exists>p. data item = QPixmap p) \<longrightarrow> data_type item = IMAGE) \<longrightarrow>
      save_items_to_file s = Inr (save_items_to_file_data s) \<and>
      (\<forall>r\<in>set (save_items_to_file_data s). \<exists>t. dict_data r = Str t))"
proof (intro conjI impI)
  show "\<forall>item\<in>set (items s). data_type item \<noteq> IMAGE \<longrightarrow>
      (\<exists>r\<in>set (save_items_to_file_data s).
          dict_data_type r = data_type item \<and> dict_data r = data item \<and>
          dict_favorite r = favorite item \<and> dict_index r = index item)"
    by (auto simp: save_items_to_file_data_def to_dict_def)
  show "\<forall>r\<in>set (save_items_to_file_data s).
      dict_data_type r \<noteq> IMAGE \<and>
      (\<exists>item\<in>set (items s). data_type item \<noteq> IMAGE \<and> r = to_dict item)"
    by (auto simp: save_items_to_file_data_def to_dict_def)
  show "length (save_items_to_file_data s) = length (filter (\<lambda>item. data_type item \<noteq> IMAGE) (items s))"
    by (simp add: save_items_to_file_data_def)
next
  assume ty: "\<forall>item\<in>set (items s). (\<exists>p. data item = QPixmap p) \<longrightarrow> data_type item = IMAGE"
  then have str: "\<forall>r\<in>set (save_items_to_file_data s). \<exists>t. dict_data r = Str t"
    by (auto simp: save_items_to_file_data_def to_dict_def) (metis pydata.exhaust)
  then show "\<forall>r\<in>set (save_items_to_file_data s). \<exists>t. dict_data r = Str t" .
  from str show "save_items_to_file s = Inr (save_items_to_file_data s)"
    by (auto simp: save_items_to_file_def json_dump_def list_ex_iff split: pydata.splits)
qed

theorem save_items_to_file_data_no_image_witness:
  "save_items_to_file_data
     \<lparr>items = [\<lparr>data_type = TEXT, data = Str ''x'', favorite = False, index = 0\<rparr>,
               \<lparr>data_type = IMAGE, data = QPixmap (fromImage (QImage [7])), favorite = False, index = 1\<rparr>],
      counter = 2, is_paused = False\<rparr>
     = [\<lparr>dict_data_type = TEXT, dict_data = Str ''x'', dict_favorite = False, dict_index = 0\<rparr>] \<and>
   length (save_items_to_file_data
     \<lparr>items = [\<lparr>data_type = TEXT, data = Str ''x'', favorite = False, index = 0\<rparr>,
               \<lparr>data_type = IMAGE, data = QPixmap (fromImage (QImage [7])), favorite = False, index = 1\<rparr>],
      counter = 2, is_paused = False\<rparr>) = 1 \<and>
   save_items_to_file
     \<lparr>items = [\<lparr>data_type = TEXT, data = Str ''x'', favorite = False, index = 0\<rparr>,
               \<lparr>data_type = IMAGE, data = QPixmap (fromImage (QImage [7])), favorite = False, index = 1\<rparr>],
      counter = 2, is_paused = False\<rparr>
     = Inr [\<lparr>dict_data_type = TEXT, dict_data = Str ''x'', dict_favorite = False, dict_index = 0\<rparr>]"
  using save_items_to_file_data_no_image [of
     "\<lparr>items = [\<lparr>data_type = TEXT, data = Str ''x'', favorite = False, index = 0\<rparr>,
               \<lparr>data_type = IMAGE, data = QPixmap (fromImage (QImage [7])), favorite = False, index = 1\<rparr>],
      counter = 2, is_paused = False\<rparr>"]
  by (simp add: save_items_to_file_data_def to_dict_def)

section \<open>Round trip\<close>

text \<open>
  Claim C5. For a store whose items are all texts, URLs or files, with the string payloads
  these kinds have, saving succeeds and a start from the saved file gives the same set of
  items (each with its \<^verbatim>\<open>data_type\<close>, \<^verbatim>\<open>data\<close>, \<^verbatim>\<open>favorite\<close> and \<^verbatim>\<open>index\<close>), in the
  display order of the saved store: the list \<^verbatim>\<open>reorder_items\<close> computes from it, which
  is the saved list itself when that was in order. \<^verbatim>\<open>json.dump\<close> followed by
  \<^verbatim>\<open>json.load\<close> is taken to give back the strings, booleans and integers written.
\<close>

theorem save_load_round_trip:
  assumes "\<forall>item\<in>set (items s). data_type item \<noteq> IMAGE \<and> (\<exists>t. data item = Str t)"
  shows "\<exists>ds s'. save_items_to_file s = Inr ds \<and> ClipboardManager_init (Records ds) = Inr s' \<and>
           set (items s') = set (items s) \<and>
           items s' = items (reorder_items s) \<and>
           (sorted (map (\<lambda>x. (\<not> favorite x, index x)) (items s)) \<longrightarrow> items s' = items s)"
proof -
  have all: "filter (\<lambda>item. data_type item \<noteq> IMAGE) (items s) = items s"
    using assms by (simp add: filter_id_conv)
  have "\<not> list_ex (\<lambda>d. case dict_data d of QPixmap _ \<Rightarrow> True | Str _ \<Rightarrow> False) (map to_dict (items s))"
    using assms by (auto simp: list_ex_iff to_dict_def)
  then have save: "save_items_to_file s = Inr (map to_dict (items s))"
    by (simp add: save_items_to_file_def save_items_to_file_data_def all json_dump_def)
  obtain s' where init: "ClipboardManager_init (Records (map to_dict (items s))) = Inr s'"
    by (auto simp: ClipboardManager_init_def load_items_from_file_def Let_def)
  have s': "items s' = sort_key (\<lambda>x. (\<not> favorite x, index x)) (items s)"
    using restart_state [OF save init] by (simp add: all)
  have "set (items s') = set (items s)" by (simp add: s')
  moreover have "items s' = items (reorder_items s)" by (simp add: s' reorder_items_def)
  moreover have "sorted (map (\<lambda>x. (\<not> favorite x, index x)) (items s)) \<longrightarrow> items s' = items s"
    by (simp add: s' sort_key_id_if_sorted)
  ultimately show ?thesis using save init by blast
qed

theorem save_load_round_trip_witness:
  "save_items_to_file
     \<lparr>items = [\<lparr>data_type = TEXT, data = Str ''b'', favorite = True, index = 1\<rparr>,
               \<lparr>data_type = URL, data = Str ''http://a'', favorite = False, index = 0\<rparr>],
      counter = 2, is_paused = False\<rparr>
   = Inr [\<lparr>dict_data_type = TEXT, dict_data = Str ''b'', dict_favorite = True, dict_index = 1\<rparr>,
          \<lparr>dict_data_type = URL, dict_data = Str ''http://a'', dict_favorite = False, dict_index = 0\<rparr>] \<and>
   ClipboardManager_init (Records
         [\<lparr>dict_data_type = TEXT, dict_data = Str ''b'', dict_favorite = True, dict_index = 1\<rparr>,
          \<lparr>dict_data_type = URL, dict_data = Str ''http://a'', dict_favorite = False, dict_index = 0\<rparr>])
   = Inr \<lparr>items = [\<lparr>data_type = TEXT, data = Str ''b'', favorite = True, index = 1\<rparr>,
                   \<lparr>data_type = URL, data = Str ''http://a'', favorite = False, index = 0\<rparr>],
          counter = 2, is_paused = False\<rparr> \<and>
   (\<exists>ds s'. save_items_to_file
       \<lparr>items = [\<lparr>data_type = TEXT, data = Str ''b'', favorite = True, index = 1\<rparr>,
                 \<lparr>data_type = URL, data = Str ''http://a'', favorite = False, index = 0\<rparr>],
        counter = 2, is_paused = False\<rparr> = Inr ds \<and>
      ClipboardManager_init (Records ds) = Inr s' \<and>
      set (items s') = {\<lparr>data_type = TEXT, data = Str ''b'', favorite = True, index = 1\<rparr>,
                 \<lparr>data_type = URL, data = Str ''http://a'', favorite = False, index = 0\<rparr>})"
proof -
  let ?s = "\<lparr>items = [\<lparr>data_type = TEXT, data = Str ''b'', favorite = True, index = 1\<rparr>,
               \<lparr>data_type = URL, data = Str ''http://a'', favorite = False, index = 0\<rparr>],
      counter = 2, is_paused = False\<rparr>"
  have h: "\<forall>item\<in>set (items ?s). data_type item \<noteq> IMAGE \<and> (\<exists>t. data item = Str t)"
    by simp
  have a: "save_items_to_file ?s
     = Inr [\<lparr>dict_data_type = TEXT, dict_data = Str ''b'', dict_favorite = True, dict_index = 1\<rparr>,
          \<lparr>dict_data_type = URL, dict_data = Str ''http://a'', dict_favorite = False, dict_index = 0\<rparr>]"
    by (simp add: save_items_to_file_def save_items_to_file_data_def json_dump_def to_dict_def)
  have b: "ClipboardManager_init (Records
         [\<lparr>dict_data_type = TEXT, dict_data = Str ''b'', dict_favorite = True, dict_index = 1\<rparr>,
          \<lparr>dict_data_type = URL, dict_data = Str ''http://a'', dict_favorite = False, dict_index = 0\<rparr>])
     = Inr ?s"
    by (simp add: ClipboardManager_init_def load_items_from_file_def initial_state_def from_dict_def
          ClipboardItem_def reorder_items_def)
  from save_load_round_trip [OF h]
  have "\<exists>ds s'. save_items_to_file ?s = Inr ds \<and> ClipboardManager_init (Records ds) = Inr s' \<and>
      set (items s') = {\<lparr>data_type = TEXT, data = Str ''b'', favorite = True, index = 1\<rparr>,
                 \<lparr>data_type = URL, data = Str ''http://a'', favorite = False, index = 0\<rparr>}"
    by auto
  with a b show ?thesis by blast
qed

section \<open>The counter\<close>

text \<open>
  Claim C8. After a confirmed \<^verbatim>\<open>delete_all_items\<close> the store is empty and the counter
  is 0, and a following \<^verbatim>\<open>process_mime_data\<close> of one candidate (a non-empty text, an
  image without text, or one local file URL without text and image) gives a store of
  exactly one item, whose index is 0.
\<close>

theorem delete_all_then_ingest:
  "items (delete_all_items Yes s) = [] \<and> counter (delete_all_items Yes s) = 0 \<and>
   (hasText m \<and> mime_text m \<noteq> [] \<or> \<not> hasText m \<and> hasImage m \<or>
    \<not> hasText m \<and> \<not> hasImage m \<and> hasUrls m \<and>
      (\<exists>u. urls m = [u] \<and> isLocalFile u \<and> toLocalFile u \<noteq> []) \<longrightarrow>
    (\<exists>x. items (process_mime_data QUrl m (delete_all_items Yes s)) = [x] \<and> index x = 0 \<and>
         favorite x = False \<and> counter (process_mime_data QUrl m (delete_all_items Yes s)) = 1))"
proof (intro conjI impI)
  show "items (delete_all_items Yes s) = []" "counter (delete_all_items Yes s) = 0"
    by (simp_all add: delete_all_items_def)
next
  let ?s = "delete_all_items Yes s"
  have e: "items ?s = []" "counter ?s = 0" by (simp_all add: delete_all_items_def)
  assume "hasText m \<and> mime_text m \<noteq> [] \<or> \<not> hasText m \<and> hasImage m \<or>
    \<not> hasText m \<and> \<not> hasImage m \<and> hasUrls m \<and>
      (\<exists>u. urls m = [u] \<and> isLocalFile u \<and> toLocalFile u \<noteq> [])"
  then consider (from_text) "hasText m" "mime_text m \<noteq> []"
    | (from_image) "\<not> hasText m" "hasImage m"
    | (from_url) u where "\<not> hasText m" "\<not> hasImage m" "hasUrls m" "urls m = [u]" "isLocalFile u" "toLocalFile u \<noteq> []"
    by blast
  then show "\<exists>x. items (process_mime_data QUrl m ?s) = [x] \<and> index x = 0 \<and>
         favorite x = False \<and> counter (process_mime_data QUrl m ?s) = 1"
  proof cases
    case from_text
    from process_mime_data_text [OF from_text, of QUrl ?s] show ?thesis
      by (auto simp: e add_item_to_list_def reorder_items_def)
  next
    case from_image
    then show ?thesis
      by (simp add: process_mime_data_image e add_item_to_list_def reorder_items_def)
  next
    case from_url
    then show ?thesis
      by (simp add: process_mime_data_def e ClipboardItem_def add_item_to_list_def reorder_items_def)
  qed
qed

theorem delete_all_then_ingest_witness:
  "items (process_mime_data (\<lambda>_. \<lparr>isLocalFile = False, toLocalFile = []\<rparr>)
      \<lparr>hasText = True, mime_text = ''z'', hasImage = False, imageData = QImage [], hasUrls = False, urls = []\<rparr>
      (delete_all_items Yes
         \<lparr>items = [\<lparr>data_type = TEXT, data = Str ''a'', favorite = False, index = 4\<rparr>],
          counter = 5, is_paused = False\<rparr>))
   = [\<lparr>data_type = TEXT, data = Str ''z'', favorite = False, index = 0\<rparr>] \<and>
   (\<exists>x. items (process_mime_data (\<lambda>_. \<lparr>isLocalFile = False, toLocalFile = []\<rparr>)
      \<lparr>hasText = True, mime_text = ''z'', hasImage = False, imageData = QImage [], hasUrls = False, urls = []\<rparr>
      (delete_all_items Yes
         \<lparr>items = [\<lparr>data_type = TEXT, data = Str ''a'', favorite = False, index = 4\<rparr>],
          counter = 5, is_paused = False\<rparr>)) = [x] \<and> index x = 0)"
  using delete_all_then_ingest [of
      "\<lparr>items = [\<lparr>data_type = TEXT, data = Str ''a'', favorite = False, index = 4\<rparr>],
          counter = 5, is_paused = False\<rparr>"
      "\<lparr>hasText = True, mime_text = ''z'', hasImage = False, imageData = QImage [], hasUrls = False, urls = []\<rparr>"
      "\<lambda>_. \<lparr>isLocalFile = False, toLocalFile = []\<rparr>"]
  by (simp add: delete_all_items_def process_mime_data_def startswith_def ClipboardItem_def
        add_item_to_list_def reorder_items_def)

text \<open>
  Claim C9. After loading a list of records the counter is 0 when the list is empty and
  one more than the greatest \<^verbatim>\<open>index\<close> of the records otherwise, so above the index of
  every loaded item; an item that the next text or image adds has that counter as its
  index. The witness loads the indices 0, 2 and 5: the counter is 6 and the item added
  next has index 6.
\<close>

theorem load_sets_counter:
  assumes "load_items_from_file (Records ds) s = Inr s'"
  shows "counter s' = (if ds = [] then 0 else Max (set (map dict_index ds)) + 1) \<and>
         set (map index (items s')) = set (map dict_index ds) \<and>
         (\<forall>x\<in>set (items s'). index x < counter s') \<and>
         (hasText m \<and> mime_text m \<noteq> [] \<or> \<not> hasText m \<and> hasImage m \<longrightarrow>
            (\<forall>x\<in>set (items (process_mime_data QUrl m s')). x \<in> set (items s') \<or> index x = counter s'))"
proof -
  from assms have s': "s' = \<lparr>items = sort_key (\<lambda>x. (\<not> favorite x, index x))
                    (map (\<lambda>d. \<lparr>data_type = dict_data_type d, data = dict_data d,
                                favorite = dict_favorite d, index = dict_index d\<rparr>) ds),
          counter = (if ds = [] then 0 else Max (set (map dict_index ds)) + 1),
          is_paused = is_paused s\<rparr>"
    by (simp add: load_items_from_file_Records)
  have c: "counter s' = (if ds = [] then 0 else Max (set (map dict_index ds)) + 1)"
    by (simp add: s')
  have ids: "set (map index (items s')) = set (map dict_index ds)"
    by (simp add: s' image_image)
  have below: "\<forall>x\<in>set (items s'). index x < counter s'"
  proof
    fix x assume "x \<in> set (items s')"
    then have "index x \<in> set (map dict_index ds)" using ids by auto
    then have "ds \<noteq> []" "index x \<le> Max (set (map dict_index ds))"
      by (auto intro: Max_ge)
    then show "index x < counter s'" by (simp add: c)
  qed
  have new: "\<forall>x\<in>set (items (process_mime_data QUrl m s')). x \<in> set (items s') \<or> index x = counter s'"
    if "hasText m \<and> mime_text m \<noteq> [] \<or> \<not> hasText m \<and> hasImage m"
    using that
  proof
    assume "hasText m \<and> mime_text m \<noteq> []"
    with process_mime_data_text [of m QUrl s'] show ?thesis
      by (auto simp: set_items_add_item_to_list split: if_splits)
  next
    assume "\<not> hasText m \<and> hasImage m"
    then show ?thesis
      by (simp add: process_mime_data_image set_items_add_item_to_list)
  qed
  from c ids below new show ?thesis by blast
qed

theorem load_sets_counter_witness:
  "load_items_from_file (Records
      [\<lparr>dict_data_type = TEXT, dict_data = Str ''a'', dict_favorite = False, dict_index = 0\<rparr>,
       \<lparr>dict_data_type = TEXT, dict_data = Str ''b'', dict_favorite = False, dict_index = 2\<rparr>,
       \<lparr>dict_data_type = TEXT, dict_data = Str ''c'', dict_favorite = False, dict_index = 5\<rparr>]) initial_state
   = Inr \<lparr>items = [\<lparr>data_type = TEXT, data = Str ''a'', favorite = False, index = 0\<rparr>,
                   \<lparr>data_type = TEXT, data = Str ''b'', favorite = False, index = 2\<rparr>,
                   \<lparr>data_type = TEXT, data = Str ''c'', favorite = False, index = 5\<rparr>],
          counter = 6, is_paused = False\<rparr> \<and>
   counter \<lparr>items = [\<lparr>data_type = TEXT, data = Str ''a'', favorite = False, index = 0\<rparr>,
                   \<lparr>data_type = TEXT, data = Str ''b'', favorite = False, index = 2\<rparr>,
                   \<lparr>data_type = TEXT, data = Str ''c'', favorite = False, index = 5\<rparr>],
          counter = 6, is_paused = False\<rparr>
     = (if [\<lparr>dict_data_type = TEXT, dict_data = Str ''a'', dict_favorite = False, dict_index = 0\<rparr>,
       \<lparr>dict_data_type = TEXT, dict_data = Str ''b'', dict_favorite = False, dict_index = 2\<rparr>,
       \<lparr>dict_data_type = TEXT, dict_data = Str ''c'', dict_favorite = False, dict_index = (5::int)\<rparr>] = [] then 0
        else Max (set (map dict_index
      [\<lparr>dict_data_type = TEXT, dict_data = Str ''a'', dict_favorite = False, dict_index = 0\<rparr>,
       \<lparr>dict_data_type = TEXT, dict_data = Str ''b'', dict_favorite = False, dict_index = 2\<rparr>,
       \<lparr>dict_data_type = TEXT, dict_data = Str ''c'', dict_favorite = False, dict_index = 5\<rparr>])) + 1) \<and>
   items (process_mime_data (\<lambda>_. \<lparr>isLocalFile = False, toLocalFile = []\<rparr>)
      \<lparr>hasText = True, mime_text = ''z'', hasImage = False, imageData = QImage [], hasUrls = False, urls = []\<rparr>
      \<lparr>items = [\<lparr>data_type = TEXT, data = Str ''a'', favorite = False, index = 0\<rparr>,
                   \<lparr>data_type = TEXT, data = Str ''b'', favorite = False, index = 2\<rparr>,
                   \<lparr>data_type = TEXT, data = Str ''c'', favorite = False, index = 5\<rparr>],
          counter = 6, is_paused = False\<rparr>)
   = [\<lparr>data_type = TEXT, data = Str ''a'', favorite = False, index = 0\<rparr>,
      \<lparr>data_type = TEXT, data = Str ''b'', favorite = False, index = 2\<rparr>,
      \<lparr>data_type = TEXT, data = Str ''c'', favorite = False, index = 5\<rparr>,
      \<lparr>data_type = TEXT, data = Str ''z'', favorite = False, index = 6\<rparr>]"
proof -
  let ?ds = "[\<lparr>dict_data_type = TEXT, dict_data = Str ''a'', dict_favorite = False, dict_index = 0\<rparr>,
       \<lparr>dict_data_type = TEXT, dict_data = Str ''b'', dict_favorite = False, dict_index = 2\<rparr>,
       \<lparr>dict_data_type = TEXT, dict_data = Str ''c'', dict_favorite = False, dict_index = 5\<rparr>]"
  let ?s = "\<lparr>items = [\<lparr>data_type = TEXT, data = Str ''a'', favorite = False, index = 0\<rparr>,
                   \<lparr>data_type = TEXT, data = Str ''b'', favorite = False, index = 2\<rparr>,
                   \<lparr>data_type = TEXT, data = Str ''c'', favorite = False, index = 5\<rparr>],
          counter = 6, is_paused = False\<rparr>"
  have h: "load_items_from_file (Records ?ds) initial_state = Inr ?s"
    by (simp add: load_items_from_file_def initial_state_def from_dict_def ClipboardItem_def reorder_items_def)
  have i: "items (process_mime_data (\<lambda>_. \<lparr>isLocalFile = False, toLocalFile = []\<rparr>)
      \<lparr>hasText = True, mime_text = ''z'', hasImage = False, imageData = QImage [], hasUrls = False, urls = []\<rparr> ?s)
   = [\<lparr>data_type = TEXT, data = Str ''a'', favorite = False, index = 0\<rparr>,
      \<lparr>data_type = TEXT, data = Str ''b'', favorite = False, index = 2\<rparr>,
      \<lparr>data_type = TEXT, data = Str ''c'', favorite = False, index = 5\<rparr>,
      \<lparr>data_type = TEXT, data = Str ''z'', favorite = False, index = 6\<rparr>]"
    by (simp add: process_mime_data_def startswith_def ClipboardItem_def add_item_to_list_def reorder_items_def)
  from load_sets_counter [OF h]
  have "counter ?s = (if ?ds = [] then 0 else Max (set (map dict_index ?ds)) + 1)"
    by blast
  with h i show ?thesis by blast
qed

section \<open>Activation\<close>

text \<open>
  Claim C10. A click on an item of type \<^verbatim>\<open>'text'\<close> whose string starts with \<^verbatim>\<open>/\<close>
  copies the string to the clipboard and then treats it as a path: when the path exists
  it is opened, and when it does not, the warning that the file does not exist is shown.
  This is what a click does on the same item with type \<^verbatim>\<open>'file'\<close>.
\<close>

theorem text_item_with_slash_is_opened:
  assumes "data_type clipboard_item = TEXT" "data clipboard_item = Str d" "startswith d ''/''"
  shows "on_item_clicked exists clipboard_item =
           Inr [setText d,
                if exists d then openUrl_fromLocalFile d else warning (''File does not exist: '' @ d)] \<and>
         on_item_clicked exists clipboard_item =
           on_item_clicked exists (clipboard_item\<lparr>data_type := FILE\<rparr>)"
  using assms by (simp add: on_item_clicked_def)

theorem text_item_with_slash_is_opened_witness:
  "data_type \<lparr>data_type = TEXT, data = Str ''/tmp/a'', favorite = False, index = 0\<rparr> = TEXT \<and>
   startswith ''/tmp/a'' ''/'' \<and>
   on_item_clicked (\<lambda>path. path = ''/tmp/a'')
       \<lparr>data_type = TEXT, data = Str ''/tmp/a'', favorite = False, index = 0\<rparr>
     = Inr [setText ''/tmp/a'', openUrl_fromLocalFile ''/tmp/a''] \<and>
   on_item_clicked (\<lambda>path. path = ''/tmp/a'')
       \<lparr>data_type = TEXT, data = Str ''/tmp/a'', favorite = False, index = 0\<rparr>
     = on_item_clicked (\<lambda>path. path = ''/tmp/a'')
       \<lparr>data_type = FILE, data = Str ''/tmp/a'', favorite = False, index = 0\<rparr>"
  using text_item_with_slash_is_opened [of
      "\<lparr>data_type = TEXT, data = Str ''/tmp/a'', favorite = False, index = 0\<rparr>" "''/tmp/a''"
      "\<lambda>path. path = ''/tmp/a''"]
  by (auto simp: startswith_def)

end
